theory Spec2Isabelle
  imports Main
begin

section \<open>Strings, numbers and paths as the Python code uses them\<close>

text \<open>
  The code under study is the analysis workflow of \<^verbatim>\<open>modules/analysis_tab.py\<close>
  and the cancel and validation paths of \<^verbatim>\<open>modules/contacts_tab.py\<close> and
  \<^verbatim>\<open>modules/backmapping_tab.py\<close>. Strings are lists of characters.
\<close>

definition isspace :: "char \<Rightarrow> bool" where
  \<comment> \<open>\<^verbatim>\<open>str.isspace\<close> on the code points below 128.\<close>
  "isspace c = (c = CHR '' '' \<or> c = CHR 0x09 \<or> c = CHR 0x0A \<or> c = CHR 0x0B \<or> c = CHR 0x0C
     \<or> c = CHR 0x0D \<or> c = CHR 0x1C \<or> c = CHR 0x1D \<or> c = CHR 0x1E \<or> c = CHR 0x1F)"

definition strip :: "string \<Rightarrow> string" where
  \<comment> \<open>\<^verbatim>\<open>s.strip()\<close>\<close>
  "strip s = rev (dropWhile isspace (rev (dropWhile isspace s)))"

definition replace_space :: "string \<Rightarrow> string \<Rightarrow> string" where
  \<comment> \<open>\<^verbatim>\<open>s.replace(" ", r)\<close>\<close>
  "replace_space r s = concat (map (\<lambda>c. if c = CHR '' '' then r else [c]) s)"

definition digit_char :: "nat \<Rightarrow> char" where
  \<comment> \<open>the character of a decimal digit \<open>d < 10\<close>\<close>
  "digit_char d = ''0123456789'' ! d"

fun str_nat :: "nat \<Rightarrow> string" where
  "str_nat n = (if n < 10 then [digit_char n] else str_nat (n div 10) @ [digit_char (n mod 10)])"

declare str_nat.simps [simp del]

definition str_int :: "int \<Rightarrow> string" where
  \<comment> \<open>\<^verbatim>\<open>str(i)\<close> for an integer\<close>
  "str_int i = (if i < 0 then CHR ''-'' # str_nat (nat (- i)) else str_nat (nat i))"

definition str_bool :: "bool \<Rightarrow> string" where
  \<comment> \<open>\<^verbatim>\<open>str(var.get())\<close> for the 0/1 variable of a check button\<close>
  "str_bool b = (if b then ''1'' else ''0'')"

definition path_join :: "string \<Rightarrow> string \<Rightarrow> string" where
  \<comment> \<open>\<^verbatim>\<open>os.path.join(a, b)\<close> on POSIX\<close>
  "path_join a b =
     (if b \<noteq> [] \<and> hd b = CHR ''/'' then b
      else if a = [] \<or> last a = CHR ''/'' then a @ b
      else a @ ''/'' @ b)"

definition basename :: "string \<Rightarrow> string" where
  \<comment> \<open>\<^verbatim>\<open>os.path.basename(p)\<close>: what follows the last slash\<close>
  "basename p = rev (takeWhile (\<lambda>c. c \<noteq> CHR ''/'') (rev p))"

definition join_lines :: "string list \<Rightarrow> string" where
  \<comment> \<open>\<^verbatim>\<open>"\n".join(xs)\<close>\<close>
  "join_lines xs = (case xs of [] \<Rightarrow> [] | y # ys \<Rightarrow> y @ concat (map (\<lambda>z. CHR 0x0A # z) ys))"

definition join_spaces :: "string list \<Rightarrow> string" where
  \<comment> \<open>\<^verbatim>\<open>" ".join(xs)\<close>\<close>
  "join_spaces xs = (case xs of [] \<Rightarrow> [] | y # ys \<Rightarrow> y @ concat (map (\<lambda>z. CHR '' '' # z) ys))"

section \<open>The world the workflow acts on\<close>

text \<open>
  A page of the report holds at most one heading with one image; the first page is added
  before any analysis is looked at and stays blank when the RMSD image is not used.
\<close>

datatype content =
    Dir
  | Data
  | Image string
  | Pdf "(string \<times> string) option list"

datatype level = INFO | WARNING | ERROR

datatype ui_event =
    ShowError string
  | ShowWarning string
  | ShowInfo string
  | AskYesNo string
  | AnalyzeButton bool
  | StopButton bool
  | DestroyProgress
  | ReferenceLabel string
  | InsertText string

text \<open>
  \<open>files\<close> is the file system (a path to what is stored there), \<open>log\<close> the lines appended
  to \<^verbatim>\<open>Analysis/analysis.log\<close> by the file handler of the analysis logger, \<open>ui\<close> the dialogs
  shown and the callbacks scheduled with \<^verbatim>\<open>root.after(0, ...)\<close> in the order of
  scheduling, \<open>spawned\<close> the argument vectors of the processes that
  \<^verbatim>\<open>subprocess.Popen\<close> started. \<open>root_log\<close> holds the records that the contacts workflow
  hands to the root logger: the package \<^verbatim>\<open>modules\<close> configures the root logger with a
  console handler when it is imported, so the later \<^verbatim>\<open>basicConfig\<close> of
  \<^verbatim>\<open>contacts_tab.py\<close> with a file name changes nothing and these records go to the console.
\<close>

record world =
  files :: "string \<rightharpoonup> content"
  log :: "(level \<times> string) list"
  ui :: "ui_event list"
  spawned :: "string list list"
  root_log :: "(level \<times> string) list"

record entry =
  text_of :: string
  placeholder_active :: bool

text \<open>
  The fields of the shared state object that the workflows read. The check variables hold
  0 or 1. The working directory, the topology, the trajectory and the reference file are
  \<^verbatim>\<open>None\<close> or a \<^verbatim>\<open>pathlib.Path\<close>, here the string of the path. When \<^verbatim>\<open>analyze\<close>
  runs the working directory is a path: with \<^verbatim>\<open>None\<close>, \<^verbatim>\<open>run_analysis\<close> has raised in
  \<^verbatim>\<open>get_analysis_logger\<close> before it starts the thread of \<^verbatim>\<open>analyze\<close>.
\<close>

record state =
  working_directory :: string
  atom_selection1 :: entry
  atom_selection2 :: "entry option"
  atom_selection3 :: "entry option"
  time_step :: string
  steps_between_frames :: string
  skip_entry :: string
  sasa_rp_entry :: string
  reference_file :: "string option"
  topology_file :: "string option"
  trajectory_file :: "string option"
  rmsd_var :: bool
  rmsf_var :: bool
  rgyr_var :: bool
  sasa_var :: bool
  nativec_var :: bool
  rdf_var :: bool
  contact_surface_var :: bool
  report_var :: bool
  rmsf2pdbeta_var :: bool
  progress_window :: bool
  stop_analysis :: bool

text \<open>
  What the code takes from outside: whether \<^verbatim>\<open>float(s)\<close> returns (\<open>is_float\<close>), the
  directory two levels above the module file (\<open>install_dir\<close>), the answer of the
  overwrite dialog, whether \<^verbatim>\<open>Popen\<close> raises, whether reading the data and drawing
  raises inside a plot function before the image at a given path is saved
  (\<open>plot_raises\<close>), and whether assembling the report raises.
\<close>

record env =
  is_float :: "string \<Rightarrow> bool"
  install_dir :: string
  overwrite_answer :: bool
  popen_raises :: bool
  plot_raises :: "string \<Rightarrow> bool"
  pdf_raises :: bool

definition exists :: "world \<Rightarrow> string \<Rightarrow> bool" where
  \<comment> \<open>\<^verbatim>\<open>os.path.exists(p)\<close>\<close>
  "exists w p = (files w p \<noteq> None)"

definition makedirs :: "string \<Rightarrow> world \<Rightarrow> world" where
  \<comment> \<open>\<^verbatim>\<open>os.makedirs(p, exist_ok=True)\<close>; the parent is the working directory\<close>
  "makedirs p w = (if exists w p then w else w\<lparr>files := (files w)(p \<mapsto> Dir)\<rparr>)"

definition logger :: "level \<Rightarrow> string \<Rightarrow> world \<Rightarrow> world" where
  \<comment> \<open>\<^verbatim>\<open>logger.info(m)\<close>, \<^verbatim>\<open>logger.warning(m)\<close>, \<^verbatim>\<open>logger.error(m)\<close>,
      \<^verbatim>\<open>logger.exception(m)\<close>\<close>
  "logger l m w = w\<lparr>log := log w @ [(l, m)]\<rparr>"

definition logging :: "level \<Rightarrow> string \<Rightarrow> world \<Rightarrow> world" where
  \<comment> \<open>\<^verbatim>\<open>logging.info(m)\<close>, \<^verbatim>\<open>logging.error(m)\<close> on the root logger\<close>
  "logging l m w = w\<lparr>root_log := root_log w @ [(l, m)]\<rparr>"

definition after :: "ui_event \<Rightarrow> world \<Rightarrow> world" where
  \<comment> \<open>\<^verbatim>\<open>state.root.after(0, callback)\<close>, or the dialog shown directly\<close>
  "after e w = w\<lparr>ui := ui w @ [e]\<rparr>"

definition get_analysis_logger :: "string \<Rightarrow> world \<Rightarrow> world" where
  "get_analysis_logger wd w = makedirs (path_join wd ''Analysis'') w"

definition truthy :: "string option \<Rightarrow> bool" where
  \<comment> \<open>the truth value of a field that holds \<^verbatim>\<open>None\<close> or a path: a path is never false\<close>
  "truthy x = (x \<noteq> None)"

section \<open>The analysis workflow: building the job\<close>

definition entry_selection :: "entry \<Rightarrow> string" where
  \<comment> \<open>\<^verbatim>\<open>entry.get().strip()\<close>, emptied when the placeholder is shown\<close>
  "entry_selection e = (if placeholder_active e then [] else strip (text_of e))"

definition optional_selection :: "entry option \<Rightarrow> string" where
  "optional_selection e = (case e of None \<Rightarrow> [] | Some x \<Rightarrow> entry_selection x)"

definition basic_analysis_selected :: "state \<Rightarrow> bool" where
  "basic_analysis_selected st = (rmsd_var st \<or> rmsf_var st \<or> rgyr_var st)"

definition advanced_analysis_selected :: "state \<Rightarrow> bool" where
  "advanced_analysis_selected st =
     (sasa_var st \<or> nativec_var st \<or> rdf_var st \<or> contact_surface_var st)"

text \<open>
  The selection rules of \<^verbatim>\<open>analyze\<close>: each early return is an \<open>Inl\<close> carrying the
  dialog and the log line of that branch; \<open>Inr\<close> carries the three selections and the log
  lines written on the way.
\<close>

definition selection3_note :: "(level \<times> string) list" where
  "selection3_note = [(INFO, ''Selection 3 is empty; using Selection 2 as Selection 3.'')]"

definition validate_selections ::
  "state \<Rightarrow> string \<Rightarrow> string \<Rightarrow> string \<Rightarrow>
     (ui_event \<times> (level \<times> string)) + ((string \<times> string \<times> string) \<times> (level \<times> string) list)" where
  "validate_selections st selection1 selection2 selection3 =
     (if basic_analysis_selected st \<and> \<not> advanced_analysis_selected st then
        (if selection1 = [] then
           Inl (ShowError ''Please enter a valid atom selection for Basic Analysis.'',
                (ERROR, ''Invalid selection for Basic Analysis.''))
         else Inr ((selection1, selection1, selection1), []))
      else if advanced_analysis_selected st \<and> \<not> basic_analysis_selected st then
        (if selection2 = [] then
           Inl (ShowError ''Please enter a valid atom selection for Advanced Analysis (Selection 2).'',
                (ERROR, ''Invalid Selection 2 for Advanced Analysis.''))
         else if selection3 = [] then Inr ((selection2, selection2, selection2), selection3_note)
         else Inr ((selection2, selection2, selection3), []))
      else if basic_analysis_selected st \<and> advanced_analysis_selected st then
        (if selection1 = [] then
           Inl (ShowError ''Please enter a valid atom selection for Basic Analysis (Selection 1).'',
                (ERROR, ''Invalid selection for Basic Analysis.''))
         else if selection2 = [] then
           Inl (ShowError ''Please enter a valid atom selection for Advanced Analysis (Selection 2).'',
                (ERROR, ''Invalid Selection 2 for Advanced Analysis.''))
         else if selection3 = [] then Inr ((selection1, selection2, selection2), selection3_note)
         else Inr ((selection1, selection2, selection3), []))
      else
        Inl (ShowWarning ''No analyses selected. Please select at least one analysis option.'',
             (WARNING, ''No analysis options selected.'')))"

definition analysis_code :: "state \<Rightarrow> nat" where
  "analysis_code st =
     (if rmsd_var st then 1 else 0) + (if rmsf_var st then 2 else 0)
     + (if rgyr_var st then 4 else 0) + (if sasa_var st then 8 else 0)
     + (if nativec_var st then 16 else 0) + (if rdf_var st then 32 else 0)
     + (if contact_surface_var st then 64 else 0)"

definition expected_files :: "state \<Rightarrow> string \<Rightarrow> string \<Rightarrow> string \<Rightarrow> string \<Rightarrow> string list" where
  "expected_files st selection1_clean selection2_clean selection3_clean analysis_dir =
     (if rmsd_var st then
        [path_join analysis_dir (''RMSD_'' @ selection1_clean @ ''.dat''),
         path_join analysis_dir (''RMSD_'' @ selection1_clean @ ''.png'')] else [])
     @ (if rmsf_var st then
        [path_join analysis_dir (''RMSF_'' @ selection1_clean @ ''.dat''),
         path_join analysis_dir (''RMSF_'' @ selection1_clean @ ''.png'')] else [])
     @ (if rgyr_var st then
        [path_join analysis_dir (''RGYR_'' @ selection1_clean @ ''.dat''),
         path_join analysis_dir (''RGYR_'' @ selection1_clean @ ''.png'')] else [])
     @ (if sasa_var st then
        [path_join analysis_dir (''SASA_'' @ selection2_clean @ ''_'' @ selection3_clean @ ''.dat''),
         path_join analysis_dir (''SASA_'' @ selection2_clean @ ''_'' @ selection3_clean @ ''.png'')]
        else [])
     @ (if nativec_var st then
        [path_join analysis_dir (''distance_'' @ selection2_clean @ ''_'' @ selection3_clean @ ''.dat''),
         path_join analysis_dir (''Distance_'' @ selection2_clean @ ''_'' @ selection3_clean @ ''.png'')]
        else [])
     @ (if rdf_var st then
        [path_join analysis_dir (''rdf_'' @ selection2_clean @ ''_'' @ selection3_clean @ ''.dat''),
         path_join analysis_dir (''rdf_'' @ selection2_clean @ ''_'' @ selection3_clean @ ''_g.png''),
         path_join analysis_dir
           (''rdf_'' @ selection2_clean @ ''_'' @ selection3_clean @ ''_integral.png'')]
        else [])
     @ (if report_var st then
        [path_join analysis_dir (''Analysis_'' @ selection1_clean @ ''.pdf'')] else [])
     @ (if rmsf2pdbeta_var st then [path_join analysis_dir ''RMSF_protein.pdb''] else [])"

definition overwrite_message :: "string list \<Rightarrow> string" where
  "overwrite_message existing_files =
     ''The following files already exist:'' @ [CHR 0x0A]
     @ join_lines (map basename existing_files)
     @ [CHR 0x0A] @ ''Do you want to overwrite them?''"

definition reference_file_value :: "state \<Rightarrow> string" where
  "reference_file_value st = (if truthy (reference_file st) then the (reference_file st) else ''None'')"

definition command ::
  "state \<Rightarrow> string \<Rightarrow> string \<Rightarrow> string \<Rightarrow> string \<Rightarrow> string \<Rightarrow> string \<Rightarrow> string \<Rightarrow> string list" where
  "command st tcl_script_path selection1 selection2 selection3 script_dir analysis_dir skip_value =
     [''vmd'', ''-dispdev'', ''text'', ''-e'', tcl_script_path,
      ''-args'', the (topology_file st), the (trajectory_file st),
      selection1, selection2, selection3, str_nat (analysis_code st),
      script_dir, analysis_dir, reference_file_value st, skip_value, sasa_rp_entry st,
      str_bool (rmsf2pdbeta_var st)]"

section \<open>The analysis workflow: validation, overwrite guard and spawn\<close>

text \<open>
  \<^verbatim>\<open>analyze\<close> returns the world it leaves and, when the engine was started, the job
  handed to the reader thread: the three cleaned selections and the analysis directory.
  Its first test, \<^verbatim>\<open>if not getattr(state, 'working_directory', None)\<close>, has no branch
  here: the working directory is a path when \<^verbatim>\<open>analyze\<close> runs, and a path is never false.
\<close>

type_synonym job = "string \<times> string \<times> string \<times> string"

definition decline_overwrite :: "state \<Rightarrow> world \<Rightarrow> world" where
  "decline_overwrite st w =
     (let w = logger INFO ''User chose not to overwrite existing files. Analysis canceled.'' w;
          w = after (AnalyzeButton True) w;
          w = after (StopButton False) w
      in if progress_window st then after DestroyProgress w else w)"

definition spawn :: "env \<Rightarrow> state \<Rightarrow> string \<Rightarrow> string \<Rightarrow> string \<Rightarrow> string \<Rightarrow> world \<Rightarrow> world \<times> job option" where
  \<comment> \<open>the part of \<^verbatim>\<open>analyze\<close> under "Running VMD"\<close>
  "spawn ev st selection1 selection2 selection3 analysis_dir w =
     (let script_dir = path_join (install_dir ev) ''TCL'';
          tcl_script_path = path_join script_dir ''sirah_analysis.tcl''
      in if \<not> exists w tcl_script_path then
           (logger ERROR (''TCL script not found at '' @ tcl_script_path @ ''.'')
              (after (ShowError (''TCL script not found at '' @ tcl_script_path @ ''.'')) w), None)
         else
           (let cmd = command st tcl_script_path selection1 selection2 selection3 script_dir
                        analysis_dir (skip_entry st);
                w = logger INFO (''Executing command: '' @ join_spaces cmd) w
            in if popen_raises ev then
                 (let w = logger ERROR ''An unexpected error occurred.'' w;
                      w = after (ShowError ''An unexpected error occurred:'') w
                  in (if progress_window st then after DestroyProgress w else w, None))
               else
                 (w\<lparr>spawned := spawned w @ [cmd]\<rparr>,
                  Some (replace_space ''_'' selection1, replace_space ''_'' selection2,
                        replace_space ''_'' selection3, analysis_dir))))"

definition guard :: "env \<Rightarrow> state \<Rightarrow> string \<Rightarrow> string \<Rightarrow> string \<Rightarrow> string \<Rightarrow> world \<Rightarrow> world \<times> job option" where
  \<comment> \<open>the part of \<^verbatim>\<open>analyze\<close> from the cleaning of the selections to the overwrite prompt\<close>
  "guard ev st selection1 selection2 selection3 analysis_dir w =
     (let selection1_clean = replace_space ''_'' selection1;
          selection2_clean = replace_space ''_'' selection2;
          selection3_clean = replace_space ''_'' selection3;
          w = logger INFO (''Analysis code: '' @ str_nat (analysis_code st)) w;
          existing_files =
            filter (exists w)
              (expected_files st selection1_clean selection2_clean selection3_clean analysis_dir)
      in if existing_files \<noteq> [] then
           (let w = after (AskYesNo (overwrite_message existing_files)) w
            in if \<not> overwrite_answer ev then (decline_overwrite st w, None)
               else spawn ev st selection1 selection2 selection3 analysis_dir w)
         else spawn ev st selection1 selection2 selection3 analysis_dir w)"

definition analyze :: "env \<Rightarrow> state \<Rightarrow> world \<Rightarrow> world \<times> job option" where
  "analyze ev st w =
     (let w = logger INFO ''Starting analysis...'' (get_analysis_logger (working_directory st) w)
      in
         (let analysis_dir = path_join (working_directory st) ''Analysis'';
              w = (if \<not> exists w analysis_dir then
                     logger INFO (''Analysis directory created at '' @ analysis_dir)
                       (makedirs analysis_dir w)
                   else w);
              selection1 = entry_selection (atom_selection1 st);
              selection2 = optional_selection (atom_selection2 st);
              selection3 = optional_selection (atom_selection3 st)
          in if \<not> is_float ev (time_step st) then
               (after (ShowError ''Invalid value for 'Time Step'.'') w, None)
             else if \<not> is_float ev (steps_between_frames st) then
               (after (ShowError ''Invalid value for 'Steps Between Frames'.'') w, None)
             else
             (let w = after (ReferenceLabel
                        (if reference_file_value st \<noteq> ''None''
                         then basename (reference_file_value st) else ''N/A'')) w
              in case validate_selections st selection1 selection2 selection3 of
                   Inl (dialog, line) \<Rightarrow> (logger (fst line) (snd line) (after dialog w), None)
                 | Inr ((selection1, selection2, selection3), notes) \<Rightarrow>
                     (let w = w\<lparr>log := log w @ notes\<rparr>
                      in if \<not> truthy (topology_file st) \<or> \<not> truthy (trajectory_file st) then
                           (logger ERROR ''Topology or trajectory files not loaded.''
                              (after (ShowError
                                 ''Please load both topology and trajectory files before analysis.'') w),
                            None)
                         else guard ev st selection1 selection2 selection3 analysis_dir w))))"

section \<open>The analysis workflow: plots and report\<close>

definition insert_vmd_output :: "string \<Rightarrow> world \<Rightarrow> world" where
  "insert_vmd_output output w = after (InsertText output) w"

definition mark_analysis_completed :: "state \<Rightarrow> string \<Rightarrow> world \<Rightarrow> world" where
  \<comment> \<open>the variable is set to 1, which it already holds when this is called\<close>
  "mark_analysis_completed st button_text w =
     (let w = logger INFO ''Mark analysis as completed...'' (get_analysis_logger (working_directory st) w)
      in logger INFO (''Analysis '' @ button_text @ '' completed.'') w)"

definition save_plot :: "env \<Rightarrow> string \<Rightarrow> string \<Rightarrow> string \<Rightarrow> string \<Rightarrow> string \<Rightarrow> world \<Rightarrow> world" where
  \<comment> \<open>what the plot functions share from the data file test on: read the data, draw, save,
      with every exception caught inside the function. The axis labels are left out.\<close>
  "save_plot ev data_file title output_file_prefix analysis_dir failure w =
     (let data_file_path = path_join analysis_dir data_file
      in if \<not> exists w data_file_path then
           after (ShowError (''Data file '' @ data_file @ '' not found.''))
             (logger ERROR (''Data file '' @ data_file_path @ '' not found.'') w)
         else
           (let plot_filename = path_join analysis_dir (output_file_prefix @ ''.png'')
            in if plot_raises ev plot_filename then
                 after (ShowError (failure @ '':''))
                   (logger ERROR (failure @ ''.'') w)
               else
                 logger INFO (''Generated plot '' @ plot_filename)
                   (w\<lparr>files := (files w)(plot_filename \<mapsto> Image title)\<rparr>)))"

definition plot_generic :: "env \<Rightarrow> state \<Rightarrow> string \<Rightarrow> string \<Rightarrow> string \<Rightarrow> string \<Rightarrow> world \<Rightarrow> world" where
  "plot_generic ev st data_file title output_file_prefix analysis_dir w =
     (let w = logger INFO ''Ploting...'' (get_analysis_logger (working_directory st) w)
      in if \<not> is_float ev (time_step st) then
           after (ShowError ''Invalid value for 'Time Step'.'') w
         else if \<not> is_float ev (steps_between_frames st) then
           after (ShowError ''Invalid value for 'Steps Between Frames'.'') w
         else if \<not> is_float ev (skip_entry st) then
           after (ShowError ''Invalid value for 'Skip'.'') w
         else save_plot ev data_file title output_file_prefix analysis_dir
                (''Failed to generate plot '' @ title) w)"

definition plot_rmsf :: "env \<Rightarrow> state \<Rightarrow> string \<Rightarrow> string \<Rightarrow> string \<Rightarrow> string \<Rightarrow> world \<Rightarrow> world" where
  "plot_rmsf ev st data_file title output_file_prefix analysis_dir w =
     (let w = logger INFO ''Ploting RMSF...'' (get_analysis_logger (working_directory st) w)
      in save_plot ev data_file title output_file_prefix analysis_dir
           (''Failed to generate plot '' @ title) w)"

definition plot_rdf :: "env \<Rightarrow> state \<Rightarrow> string \<Rightarrow> string \<Rightarrow> string \<Rightarrow> string \<Rightarrow> string \<Rightarrow> world \<Rightarrow> world" where
  \<comment> \<open>two images, saved one after the other inside one exception handler\<close>
  "plot_rdf ev st data_file output_file_prefix analysis_dir title_g title_integral w =
     (let w = logger INFO ''Ploting RDF...'' (get_analysis_logger (working_directory st) w);
          data_file_path = path_join analysis_dir data_file
      in if \<not> exists w data_file_path then
           after (ShowError (''Data file '' @ data_file @ '' not found.''))
             (logger ERROR (''Data file '' @ data_file_path @ '' not found.'') w)
         else
           (let plot_filename_g = path_join analysis_dir (output_file_prefix @ ''_g.png'');
                plot_filename_integral = path_join analysis_dir (output_file_prefix @ ''_integral.png'')
            in if plot_raises ev plot_filename_g then
                 after (ShowError ''Failed to generate RDF plot:'')
                   (logger ERROR ''Failed to generate RDF plot.'' w)
               else
                 (let w = logger INFO (''Generated RDF g(r) plot '' @ plot_filename_g)
                            (w\<lparr>files := (files w)(plot_filename_g \<mapsto> Image title_g)\<rparr>)
                  in if plot_raises ev plot_filename_integral then
                       after (ShowError ''Failed to generate RDF plot:'')
                         (logger ERROR ''Failed to generate RDF plot.'' w)
                     else
                       logger INFO (''Generated RDF integral plot '' @ plot_filename_integral)
                         (w\<lparr>files := (files w)(plot_filename_integral \<mapsto> Image title_integral)\<rparr>))))"

definition page :: "world \<Rightarrow> bool \<Rightarrow> string \<Rightarrow> string \<Rightarrow> (string \<times> string) option list" where
  \<comment> \<open>one block of \<^verbatim>\<open>generate_pdf\<close> after the first: a new page with the heading and the
      image, when the analysis is checked and the image file exists\<close>
  "page w checked heading img = (if checked \<and> exists w img then [Some (heading, img)] else [])"

definition pdf_pages :: "state \<Rightarrow> string \<Rightarrow> string \<Rightarrow> string \<Rightarrow> world \<Rightarrow> (string \<times> string) option list" where
  "pdf_pages st selection1 selection2 selection3 w =
     (let analysis_dir = path_join (working_directory st) ''Analysis'';
          selection1_clean = replace_space ''_'' selection1;
          selection2_clean = replace_space ''_'' selection2;
          selection3_clean = replace_space ''_'' selection3;
          rmsd_image = path_join analysis_dir (''RMSD_'' @ selection1_clean @ ''.png'')
      in [if rmsd_var st \<and> exists w rmsd_image then Some (''RMSD Analysis'', rmsd_image) else None]
         @ page w (rmsf_var st) ''RMSF Analysis''
             (path_join analysis_dir (''RMSF_'' @ selection1_clean @ ''.png''))
         @ page w (rgyr_var st) ''Radius of Gyration Analysis''
             (path_join analysis_dir (''RGYR_'' @ selection1_clean @ ''.png''))
         @ page w (sasa_var st) ''SASA Analysis''
             (path_join analysis_dir (''SASA_'' @ selection2_clean @ ''_'' @ selection3_clean @ ''.png''))
         @ page w (contact_surface_var st) ''Contact Surface Analysis''
             (path_join analysis_dir
                (''ContactSurface_'' @ selection2_clean @ ''_'' @ selection3_clean @ ''.png''))
         @ page w (nativec_var st) ''Distance Analysis''
             (path_join analysis_dir
                (''Distance_'' @ selection2_clean @ ''_'' @ selection3_clean @ ''.png''))
         @ page w (rdf_var st) ''RDF Analysis - g(r)''
             (path_join analysis_dir (''rdf_'' @ selection2_clean @ ''_'' @ selection3_clean @ ''_g.png''))
         @ page w (rdf_var st) ''RDF Analysis - Integral''
             (path_join analysis_dir
                (''rdf_'' @ selection2_clean @ ''_'' @ selection3_clean @ ''_integral.png'')))"

definition generate_pdf :: "env \<Rightarrow> state \<Rightarrow> string \<Rightarrow> string \<Rightarrow> string \<Rightarrow> string \<Rightarrow> world \<Rightarrow> world" where
  "generate_pdf ev st pdf_filename selection1 selection2 selection3 w =
     (let w = logger INFO ''Creating PDF...'' (get_analysis_logger (working_directory st) w)
      in if pdf_raises ev then
           after (ShowError ''Failed to generate PDF:'') (logger ERROR ''Failed to generate PDF.'' w)
         else
           logger INFO (''PDF report saved as '' @ pdf_filename @ ''.'')
             (after (ShowInfo (''PDF report generated successfully: '' @ pdf_filename @ ''.''))
                (w\<lparr>files := (files w)(pdf_filename \<mapsto>
                      Pdf (pdf_pages st selection1 selection2 selection3 w))\<rparr>)))"

text \<open>
  \<^verbatim>\<open>post_process_analysis\<close> is one block per analysis, in the order of the source, and
  the report last. Its outer exception handler is not reached from the plot functions
  and from \<^verbatim>\<open>generate_pdf\<close>, which catch what is raised inside them.
\<close>

definition rmsd_plot :: "env \<Rightarrow> state \<Rightarrow> string \<Rightarrow> string \<Rightarrow> world \<Rightarrow> world" where
  "rmsd_plot ev st selection1_clean analysis_dir w =
     (if rmsd_var st then
        mark_analysis_completed st ''RMSD''
          (plot_generic ev st (''RMSD_'' @ selection1_clean @ ''.dat'')
             (''RMSD per Frame - '' @ selection1_clean)
             (''RMSD_'' @ selection1_clean) analysis_dir w)
      else w)"

definition rmsf_plot :: "env \<Rightarrow> state \<Rightarrow> string \<Rightarrow> string \<Rightarrow> world \<Rightarrow> world" where
  "rmsf_plot ev st selection1_clean analysis_dir w =
     (if rmsf_var st then
        mark_analysis_completed st ''RMSF''
          (plot_rmsf ev st (''RMSF_'' @ selection1_clean @ ''.dat'')
             (''RMSF per Residue - '' @ selection1_clean)
             (''RMSF_'' @ selection1_clean) analysis_dir w)
      else w)"

definition rgyr_plot :: "env \<Rightarrow> state \<Rightarrow> string \<Rightarrow> string \<Rightarrow> world \<Rightarrow> world" where
  "rgyr_plot ev st selection1_clean analysis_dir w =
     (if rgyr_var st then
        mark_analysis_completed st ''Radius of Gyration''
          (plot_generic ev st (''RGYR_'' @ selection1_clean @ ''.dat'')
             (''Radius of Gyration per Frame - '' @ selection1_clean)
             (''RGYR_'' @ selection1_clean) analysis_dir w)
      else w)"

definition sasa_plot :: "env \<Rightarrow> state \<Rightarrow> string \<Rightarrow> string \<Rightarrow> string \<Rightarrow> world \<Rightarrow> world" where
  "sasa_plot ev st selection2_clean selection3_clean analysis_dir w =
     (if sasa_var st then
        mark_analysis_completed st ''SASA''
          (plot_generic ev st (''SASA_'' @ selection2_clean @ ''_'' @ selection3_clean @ ''.dat'')
             (''SASA per Frame - '' @ selection2_clean @ '' & '' @ selection3_clean)
             (''SASA_'' @ selection2_clean @ ''_'' @ selection3_clean) analysis_dir w)
      else w)"

definition contact_surface_plot :: "env \<Rightarrow> state \<Rightarrow> string \<Rightarrow> string \<Rightarrow> string \<Rightarrow> world \<Rightarrow> world" where
  "contact_surface_plot ev st selection2_clean selection3_clean analysis_dir w =
     (if contact_surface_var st then
        mark_analysis_completed st ''Contact surface''
          (plot_generic ev st
             (''contact_surface_'' @ selection2_clean @ ''_'' @ selection3_clean @ ''.dat'')
             (''Contact Surface per Frame - '' @ selection2_clean @ '' & '' @ selection3_clean)
             (''ContactSurface_'' @ selection2_clean @ ''_'' @ selection3_clean) analysis_dir w)
      else w)"

definition distance_plot :: "env \<Rightarrow> state \<Rightarrow> string \<Rightarrow> string \<Rightarrow> string \<Rightarrow> world \<Rightarrow> world" where
  "distance_plot ev st selection2_clean selection3_clean analysis_dir w =
     (if nativec_var st then
        mark_analysis_completed st ''Distance''
          (plot_generic ev st (''distance_'' @ selection2_clean @ ''_'' @ selection3_clean @ ''.dat'')
             (''Distance between '' @ selection2_clean @ '' & '' @ selection3_clean)
             (''Distance_'' @ selection2_clean @ ''_'' @ selection3_clean) analysis_dir w)
      else w)"

definition rdf_plot :: "env \<Rightarrow> state \<Rightarrow> string \<Rightarrow> string \<Rightarrow> string \<Rightarrow> world \<Rightarrow> world" where
  "rdf_plot ev st selection2_clean selection3_clean analysis_dir w =
     (if rdf_var st then
        mark_analysis_completed st ''RDF''
          (plot_rdf ev st (''rdf_'' @ selection2_clean @ ''_'' @ selection3_clean @ ''.dat'')
             (''rdf_'' @ selection2_clean @ ''_'' @ selection3_clean) analysis_dir
             (''RDF Analysis - g(r) for '' @ selection2_clean @ '' & '' @ selection3_clean)
             (''RDF Analysis - Integral for '' @ selection2_clean @ '' & '' @ selection3_clean) w)
      else w)"

definition pdf_report :: "env \<Rightarrow> state \<Rightarrow> string \<Rightarrow> string \<Rightarrow> string \<Rightarrow> string \<Rightarrow> world \<Rightarrow> world" where
  "pdf_report ev st selection1_clean selection2_clean selection3_clean analysis_dir w =
     (if report_var st then
        (let pdf_filename = path_join analysis_dir (''Analysis_'' @ selection1_clean @ ''.pdf'');
             w = generate_pdf ev st pdf_filename selection1_clean selection2_clean selection3_clean w;
             w = after (ShowInfo (''Analysis report saved as '' @ pdf_filename @ ''.'')) w
         in logger INFO (''PDF report saved as '' @ pdf_filename @ ''.'') w)
      else w)"

definition plots :: "env \<Rightarrow> state \<Rightarrow> string \<Rightarrow> string \<Rightarrow> string \<Rightarrow> string \<Rightarrow> world \<Rightarrow> world" where
  "plots ev st selection1_clean selection2_clean selection3_clean analysis_dir w =
     rdf_plot ev st selection2_clean selection3_clean analysis_dir
       (distance_plot ev st selection2_clean selection3_clean analysis_dir
          (contact_surface_plot ev st selection2_clean selection3_clean analysis_dir
             (sasa_plot ev st selection2_clean selection3_clean analysis_dir
                (rgyr_plot ev st selection1_clean analysis_dir
                   (rmsf_plot ev st selection1_clean analysis_dir
                      (rmsd_plot ev st selection1_clean analysis_dir w))))))"

definition post_process_analysis ::
  "env \<Rightarrow> state \<Rightarrow> string \<Rightarrow> string \<Rightarrow> string \<Rightarrow> string \<Rightarrow> world \<Rightarrow> world" where
  "post_process_analysis ev st selection1_clean selection2_clean selection3_clean analysis_dir w =
     pdf_report ev st selection1_clean selection2_clean selection3_clean analysis_dir
       (plots ev st selection1_clean selection2_clean selection3_clean analysis_dir
          (logger INFO ''Running post-process analysis (ploting and generate PDF)...''
             (get_analysis_logger (working_directory st) w)))"

section \<open>The analysis workflow: relaying the output and completing the job\<close>

text \<open>
  \<^verbatim>\<open>read_output\<close> gets what the engine printed on its two streams, line by line, and its
  return code. The stop flag is the value of \<^verbatim>\<open>state.stop_analysis\<close> when the function
  tests it.
\<close>

definition relay :: "string list \<Rightarrow> world \<Rightarrow> world" where
  \<comment> \<open>\<^verbatim>\<open>for line in stream: insert_vmd_output(state, line)\<close>\<close>
  "relay lines w = foldl (\<lambda>w line. insert_vmd_output line w) w lines"

definition close_progress :: "state \<Rightarrow> world \<Rightarrow> world" where
  \<comment> \<open>the \<^verbatim>\<open>finally\<close> clause\<close>
  "close_progress st w = (if progress_window st then after DestroyProgress w else w)"

definition read_output ::
  "env \<Rightarrow> state \<Rightarrow> job \<Rightarrow> string list \<Rightarrow> string list \<Rightarrow> int \<Rightarrow> world \<Rightarrow> world" where
  "read_output ev st j stdout stderr returncode w =
     (case j of (selection1_clean, selection2_clean, selection3_clean, analysis_dir) \<Rightarrow>
        (let w = logger INFO ''Reading VMD Output'' (get_analysis_logger (working_directory st) w);
             w = relay stdout w;
             w = relay stderr w
         in if returncode \<noteq> 0 \<and> \<not> stop_analysis st then
              close_progress st
                (after (ShowError (''VMD exited with return code '' @ str_int returncode @ ''.''))
                   (logger ERROR (''VMD exited with return code '' @ str_int returncode) w))
            else
              (let w = (if \<not> stop_analysis st then
                          insert_vmd_output ([CHR 0x0A] @ ''Analysis completed.'' @ [CHR 0x0A])
                            (post_process_analysis ev st selection1_clean selection2_clean
                               selection3_clean analysis_dir w)
                        else w);
                   w = after (AnalyzeButton True) w;
                   w = after (StopButton False) w
               in close_progress st w)))"

text \<open>
  The Tk event loop runs the callbacks scheduled with \<^verbatim>\<open>after(0, ...)\<close> in the order in
  which they were scheduled. \<open>display\<close> is the text of the output widget after the
  scheduled callbacks have run on a widget holding \<open>shown\<close>.
\<close>

fun display :: "string \<Rightarrow> ui_event list \<Rightarrow> string" where
  "display shown [] = shown"
| "display shown (InsertText output # es) = display (shown @ output) es"
| "display shown (e # es) = display shown es"

fun inserted :: "ui_event list \<Rightarrow> string list" where
  "inserted [] = []"
| "inserted (InsertText output # es) = output # inserted es"
| "inserted (e # es) = inserted es"

section \<open>The check buttons of the advanced analyses\<close>

text \<open>
  The two variables and the two widgets that \<^verbatim>\<open>update_sasa_contact_surface\<close> touches.
  A click on an enabled check button flips its variable and then runs the command of the
  button; a click on a disabled one does nothing. \<^verbatim>\<open>reset_tab\<close> sets the SASA variable
  to 0 and raises at \<^verbatim>\<open>state.contact_surface_var(0)\<close>, inside its own handler, so the
  contact surface variable keeps its value.

  The post-processing runs on the worker thread while the check buttons stay clickable.
  For SASA it reads the variable (\<^verbatim>\<open>if state.sasa_var.get()\<close>), draws the plot and then
  \<^verbatim>\<open>mark_analysis_completed\<close> sets the variable to 1 without running the command of the
  button; for the contact surface likewise. \<open>sasa_plot_running\<close> and
  \<open>contact_surface_plot_running\<close> hold between the read and the write.
\<close>

record checks =
  sasa :: bool
  contact_surface :: bool
  sasa_checkbutton_normal :: bool
  contact_surface_checkbuttom_normal :: bool
  sasa_plot_running :: bool
  contact_surface_plot_running :: bool

definition update_sasa_contact_surface :: "checks \<Rightarrow> checks" where
  "update_sasa_contact_surface c =
     (if sasa c then
        c\<lparr>contact_surface := False, sasa_checkbutton_normal := True,
          contact_surface_checkbuttom_normal := False\<rparr>
      else if contact_surface c then
        c\<lparr>sasa := False, sasa_checkbutton_normal := False,
          contact_surface_checkbuttom_normal := True\<rparr>
      else c\<lparr>sasa_checkbutton_normal := True, contact_surface_checkbuttom_normal := True\<rparr>)"

datatype gui_event =
    ClickSasa
  | ClickContactSurface
  | ResetTab
  | SasaPlotStarts
  | SasaPlotEnds
  | ContactSurfacePlotStarts
  | ContactSurfacePlotEnds

fun gui_step :: "checks \<Rightarrow> gui_event \<Rightarrow> checks" where
  "gui_step c ClickSasa =
     (if sasa_checkbutton_normal c then update_sasa_contact_surface (c\<lparr>sasa := \<not> sasa c\<rparr>) else c)"
| "gui_step c ClickContactSurface =
     (if contact_surface_checkbuttom_normal c
      then update_sasa_contact_surface (c\<lparr>contact_surface := \<not> contact_surface c\<rparr>) else c)"
| "gui_step c ResetTab = c\<lparr>sasa := False\<rparr>"
| "gui_step c SasaPlotStarts = c\<lparr>sasa_plot_running := sasa c\<rparr>"
| "gui_step c SasaPlotEnds =
     (if sasa_plot_running c then c\<lparr>sasa := True, sasa_plot_running := False\<rparr> else c)"
| "gui_step c ContactSurfacePlotStarts = c\<lparr>contact_surface_plot_running := contact_surface c\<rparr>"
| "gui_step c ContactSurfacePlotEnds =
     (if contact_surface_plot_running c
      then c\<lparr>contact_surface := True, contact_surface_plot_running := False\<rparr> else c)"

fun is_click :: "gui_event \<Rightarrow> bool" where
  \<comment> \<open>the events of the user, as opposed to those of the post-processing\<close>
  "is_click ClickSasa = True"
| "is_click ClickContactSurface = True"
| "is_click ResetTab = True"
| "is_click e = False"

definition initial_checks :: checks where
  "initial_checks = \<lparr>sasa = False, contact_surface = False, sasa_checkbutton_normal = True,
     contact_surface_checkbuttom_normal = True, sasa_plot_running = False,
     contact_surface_plot_running = False\<rparr>"

definition gui_run :: "gui_event list \<Rightarrow> checks" where
  "gui_run es = foldl gui_step initial_checks es"

section \<open>Cancelling the engine\<close>

text \<open>
  A process records the signals sent to it. One that heeds SIGTERM has exited when the
  grace period of the caller is over; SIGKILL ends any process.
\<close>

datatype signal = SIGTERM | SIGKILL

record process =
  signals :: "signal list"
  running :: bool
  heeds_sigterm :: bool

definition terminate :: "process \<Rightarrow> process" where
  \<comment> \<open>\<^verbatim>\<open>Popen.terminate()\<close>: nothing is sent to a process that has exited\<close>
  "terminate p =
     (if running p then p\<lparr>signals := signals p @ [SIGTERM], running := \<not> heeds_sigterm p\<rparr> else p)"

definition kill :: "process \<Rightarrow> process" where
  "kill p = (if running p then p\<lparr>signals := signals p @ [SIGKILL], running := False\<rparr> else p)"

definition wait_times_out :: "process \<Rightarrow> bool" where
  \<comment> \<open>\<^verbatim>\<open>Popen.wait(timeout=5)\<close> raises \<^verbatim>\<open>TimeoutExpired\<close>\<close>
  "wait_times_out p = running p"

definition contacts_cancel :: "process \<Rightarrow> world \<Rightarrow> process \<times> world" where
  \<comment> \<open>the branch of the read loop of \<^verbatim>\<open>run_command\<close> (contacts) taken when the stop event is set\<close>
  "contacts_cancel p w =
     (let p = terminate p;
          p = (if wait_times_out p then kill p else p);
          w = after (InsertText (''Process stopped by user.'' @ [CHR 0x0A])) w;
          w = logging INFO ''Process stopped by user.'' w
      in (p, after (ShowInfo ''The calculation was canceled.'') w))"

text \<open>
  The read loop of the contacts workflow: \<open>stop_after\<close> is the number of lines read
  before the stop event is found set, if it is set at all while lines arrive.
\<close>

fun contacts_read_loop :: "nat option \<Rightarrow> string list \<Rightarrow> process \<Rightarrow> world \<Rightarrow> bool \<times> process \<times> world" where
  "contacts_read_loop (Some 0) ls p w = (case contacts_cancel p w of (p, w) \<Rightarrow> (True, p, w))"
| "contacts_read_loop stop_after [] p w = (False, p, w)"
| "contacts_read_loop stop_after (l # ls) p w =
     contacts_read_loop (map_option (\<lambda>n. n - 1) stop_after) ls p (after (InsertText l) w)"

definition stop_analysis_click :: "state \<Rightarrow> process option \<Rightarrow> world \<Rightarrow> state \<times> process option \<times> world" where
  \<comment> \<open>\<^verbatim>\<open>stop_analysis(state)\<close> of the analysis workflow\<close>
  "stop_analysis_click st vmd_process w =
     (let (vmd_process, w) =
            (case vmd_process of
               Some p \<Rightarrow>
                 (Some (terminate p),
                  insert_vmd_output ([CHR 0x0A] @ ''Process terminated by the user.'' @ [CHR 0x0A])
                    (logger INFO ''VMD process terminated by the user.''
                       (get_analysis_logger (working_directory st) w)))
             | None \<Rightarrow> (None, w));
          w = after (AnalyzeButton True) w;
          w = after (StopButton False) w
      in (st\<lparr>stop_analysis := True\<rparr>, vmd_process,
          if progress_window st then after DestroyProgress w else w))"

definition run_analysis :: "state \<Rightarrow> world \<Rightarrow> state \<times> world" where
  \<comment> \<open>\<^verbatim>\<open>run_analysis(state)\<close>, the command of the Analyze button, up to the start of the
      thread of \<^verbatim>\<open>analyze\<close>; it also deletes the text of the output widget, which the
      world does not hold\<close>
  "run_analysis st w =
     (let w = logger INFO ''Running analysis...'' (get_analysis_logger (working_directory st) w);
          w = after (AnalyzeButton False) w;
          w = after (StopButton True) w
      in (st\<lparr>progress_window := True, stop_analysis := False\<rparr>, w))"

definition stop_backmapping :: "process option \<Rightarrow> world \<Rightarrow> process option \<times> world" where
  \<comment> \<open>\<^verbatim>\<open>stop_backmapping()\<close>: the process after the call; the handle kept in the state is
      cleared, so nothing can signal the process afterwards\<close>
  "stop_backmapping backmapping_process w =
     (case backmapping_process of
        Some p \<Rightarrow>
          (Some (terminate p),
           after (InsertText (''Backmapping was stopped by the user.'' @ [CHR 0x0A])) w)
      | None \<Rightarrow> (None, w))"

section \<open>The contacts workflow: validation, overwrite guard and spawn\<close>

definition digit_value :: "char \<Rightarrow> nat option" where
  "digit_value c = map_of (zip ''0123456789'' [0, 1, 2, 3, 4, 5, 6, 7, 8, 9]) c"

definition is_digit :: "char \<Rightarrow> bool" where
  "is_digit c = (digit_value c \<noteq> None)"


definition int_of_digits :: "string \<Rightarrow> nat" where
  \<comment> \<open>\<^verbatim>\<open>int(s)\<close> for a string of digits\<close>
  "int_of_digits s = foldl (\<lambda>a c. 10 * a + (case digit_value c of Some d \<Rightarrow> d | None \<Rightarrow> 0)) 0 s"




section \<open>What a run adds, and the analysis kinds\<close>

definition new_log :: "world \<Rightarrow> world \<Rightarrow> (level \<times> string) list" where
  "new_log w w' = drop (length (log w)) (log w')"

definition new_ui :: "world \<Rightarrow> world \<Rightarrow> ui_event list" where
  "new_ui w w' = drop (length (ui w)) (ui w')"

fun is_dialog :: "ui_event \<Rightarrow> bool" where
  "is_dialog (ShowError m) = True"
| "is_dialog (ShowWarning m) = True"
| "is_dialog (ShowInfo m) = True"
| "is_dialog (AskYesNo m) = True"
| "is_dialog e = False"

definition dialogs :: "world \<Rightarrow> world \<Rightarrow> ui_event list" where
  "dialogs w w' = filter is_dialog (new_ui w w')"

definition post_processed :: "world \<Rightarrow> world \<Rightarrow> bool" where
  \<comment> \<open>the first thing \<^verbatim>\<open>post_process_analysis\<close> does is to log this line\<close>
  "post_processed w w' =
     ((INFO, ''Running post-process analysis (ploting and generate PDF)...'') \<in> set (new_log w w'))"

text \<open>
  The seven analysis kinds with, for each, its check variable, its bit in the analysis
  code, the data file its block of \<^verbatim>\<open>post_process_analysis\<close> reads, the images that block
  writes, with the heading of the report page and the title of each image.
\<close>

datatype kind = RMSD | RMSF | RGYR | SASA | ContactSurface | Distance | RDF

fun requested :: "state \<Rightarrow> kind \<Rightarrow> bool" where
  "requested st RMSD = rmsd_var st"
| "requested st RMSF = rmsf_var st"
| "requested st RGYR = rgyr_var st"
| "requested st SASA = sasa_var st"
| "requested st ContactSurface = contact_surface_var st"
| "requested st Distance = nativec_var st"
| "requested st RDF = rdf_var st"

fun code_of :: "kind \<Rightarrow> nat" where
  "code_of RMSD = 1"
| "code_of RMSF = 2"
| "code_of RGYR = 4"
| "code_of SASA = 8"
| "code_of Distance = 16"
| "code_of RDF = 32"
| "code_of ContactSurface = 64"


fun data_file :: "kind \<Rightarrow> string \<Rightarrow> string \<Rightarrow> string \<Rightarrow> string" where
  "data_file RMSD c1 c2 c3 = ''RMSD_'' @ c1 @ ''.dat''"
| "data_file RMSF c1 c2 c3 = ''RMSF_'' @ c1 @ ''.dat''"
| "data_file RGYR c1 c2 c3 = ''RGYR_'' @ c1 @ ''.dat''"
| "data_file SASA c1 c2 c3 = ''SASA_'' @ c2 @ ''_'' @ c3 @ ''.dat''"
| "data_file ContactSurface c1 c2 c3 = ''contact_surface_'' @ c2 @ ''_'' @ c3 @ ''.dat''"
| "data_file Distance c1 c2 c3 = ''distance_'' @ c2 @ ''_'' @ c3 @ ''.dat''"
| "data_file RDF c1 c2 c3 = ''rdf_'' @ c2 @ ''_'' @ c3 @ ''.dat''"

fun image_files :: "kind \<Rightarrow> string \<Rightarrow> string \<Rightarrow> string \<Rightarrow> (string \<times> string \<times> string) list" where
  \<comment> \<open>heading of the report page, file name, title of the plot\<close>
  "image_files RMSD c1 c2 c3 =
     [(''RMSD Analysis'', ''RMSD_'' @ c1 @ ''.png'', ''RMSD per Frame - '' @ c1)]"
| "image_files RMSF c1 c2 c3 =
     [(''RMSF Analysis'', ''RMSF_'' @ c1 @ ''.png'', ''RMSF per Residue - '' @ c1)]"
| "image_files RGYR c1 c2 c3 =
     [(''Radius of Gyration Analysis'', ''RGYR_'' @ c1 @ ''.png'',
       ''Radius of Gyration per Frame - '' @ c1)]"
| "image_files SASA c1 c2 c3 =
     [(''SASA Analysis'', ''SASA_'' @ c2 @ ''_'' @ c3 @ ''.png'',
       ''SASA per Frame - '' @ c2 @ '' & '' @ c3)]"
| "image_files ContactSurface c1 c2 c3 =
     [(''Contact Surface Analysis'', ''ContactSurface_'' @ c2 @ ''_'' @ c3 @ ''.png'',
       ''Contact Surface per Frame - '' @ c2 @ '' & '' @ c3)]"
| "image_files Distance c1 c2 c3 =
     [(''Distance Analysis'', ''Distance_'' @ c2 @ ''_'' @ c3 @ ''.png'',
       ''Distance between '' @ c2 @ '' & '' @ c3)]"
| "image_files RDF c1 c2 c3 =
     [(''RDF Analysis - g(r)'', ''rdf_'' @ c2 @ ''_'' @ c3 @ ''_g.png'',
       ''RDF Analysis - g(r) for '' @ c2 @ '' & '' @ c3),
      (''RDF Analysis - Integral'', ''rdf_'' @ c2 @ ''_'' @ c3 @ ''_integral.png'',
       ''RDF Analysis - Integral for '' @ c2 @ '' & '' @ c3)]"

definition dir_prefix :: "string \<Rightarrow> string" where
  \<comment> \<open>what \<^verbatim>\<open>os.path.join(d, name)\<close> puts before a relative name\<close>
  "dir_prefix d = (if d = [] \<or> last d = CHR ''/'' then d else d @ ''/'')"

definition is_image :: "content option \<Rightarrow> bool" where
  "is_image c = (case c of Some (Image t) \<Rightarrow> True | _ \<Rightarrow> False)"


section \<open>Concrete inputs\<close>

text \<open>
  A sample of the strings that \<^verbatim>\<open>float\<close> accepts: an optional sign, digits, and
  optionally a point followed by digits. It stands for \<open>is_float\<close> where an environment
  has to be concrete; every string used with it is classified as Python does.
\<close>

definition decimal_literal :: "string \<Rightarrow> bool" where
  "decimal_literal s =
     (let t = (if s \<noteq> [] \<and> (hd s = CHR ''-'' \<or> hd s = CHR ''+'') then tl s else s);
          rest = dropWhile is_digit t
      in takeWhile is_digit t \<noteq> []
         \<and> (rest = [] \<or> (hd rest = CHR ''.'' \<and> list_all is_digit (tl rest))))"

definition sample_env :: env where
  "sample_env = \<lparr>is_float = decimal_literal, install_dir = ''sirah'', overwrite_answer = False,
     popen_raises = False, plot_raises = (\<lambda>p. False), pdf_raises = False\<rparr>"

definition sample_state :: state where
  "sample_state = \<lparr>working_directory = ''wd'',
     atom_selection1 = \<lparr>text_of = ''A'', placeholder_active = False\<rparr>,
     atom_selection2 = Some \<lparr>text_of = ''Use VMD syntax: name GC, name CA'', placeholder_active = True\<rparr>,
     atom_selection3 = Some \<lparr>text_of = ''Use VMD syntax: name GC, name CA'', placeholder_active = True\<rparr>,
     time_step = ''20'', steps_between_frames = ''5000'', skip_entry = ''1'',
     sasa_rp_entry = ''2.1'', reference_file = None,
     topology_file = Some ''system.prmtop'', trajectory_file = Some ''run.nc'',
     rmsd_var = False, rmsf_var = False, rgyr_var = False, sasa_var = False,
     nativec_var = False, rdf_var = False, contact_surface_var = False,
     report_var = False, rmsf2pdbeta_var = False, progress_window = True,
     stop_analysis = False\<rparr>"

definition sample_world :: world where
  "sample_world = \<lparr>files = [''wd/Analysis'' \<mapsto> Dir, ''sirah/TCL/sirah_analysis.tcl'' \<mapsto> Data,
                             ''sirah/TCL/contacts_distance.tcl'' \<mapsto> Data, ''wd/Contacts'' \<mapsto> Dir],
     log = [], ui = [], spawned = [], root_log = []\<rparr>"

definition st13 :: state where
  \<comment> \<open>RMSD, radius of gyration and SASA checked: the kinds 1, 4 and 8\<close>
  "st13 = sample_state\<lparr>rmsd_var := True, rgyr_var := True, sasa_var := True,
     atom_selection2 := Some \<lparr>text_of = ''name GC'', placeholder_active = False\<rparr>\<rparr>"

definition grows :: "world \<Rightarrow> world \<Rightarrow> bool" where
  \<comment> \<open>the later world has the log and the scheduled callbacks of the earlier one as a prefix
      and the same processes\<close>
  "grows w w' = (take (length (log w)) (log w') = log w \<and> take (length (ui w)) (ui w') = ui w
                 \<and> spawned w' = spawned w)"

definition rerun_world :: world where
  \<comment> \<open>the sample world after an earlier run: RMSD files of selection A, a contacts file,
      and the contact surface files of the selections GC and BFO\<close>
  "rerun_world = sample_world\<lparr>files := (files sample_world)
     (''wd/Analysis/RMSD_A.dat'' \<mapsto> Data,
      ''wd/Analysis/RMSD_A.png'' \<mapsto> Image ''earlier run'',
      ''wd/Contacts/percentage_nameGC_nameBFO.dat'' \<mapsto> Data,
      ''wd/Analysis/contact_surface_GC_BFO.dat'' \<mapsto> Data,
      ''wd/Analysis/ContactSurface_GC_BFO.png'' \<mapsto> Image ''earlier run'')\<rparr>"

definition contact_surface_state :: state where
  \<comment> \<open>only the contact surface analysis checked, for the selections GC and BFO\<close>
  "contact_surface_state = sample_state\<lparr>contact_surface_var := True,
     atom_selection2 := Some \<lparr>text_of = ''GC'', placeholder_active = False\<rparr>,
     atom_selection3 := Some \<lparr>text_of = ''BFO'', placeholder_active = False\<rparr>\<rparr>"



definition data_world :: world where
  \<comment> \<open>the sample world once the engine has written the three data files\<close>
  "data_world = sample_world\<lparr>files := (files sample_world)
     (''wd/Analysis/RMSD_A.dat'' \<mapsto> Data, ''wd/Analysis/RMSF_A.dat'' \<mapsto> Data,
      ''wd/Analysis/RGYR_A.dat'' \<mapsto> Data)\<rparr>"


definition stubborn_process :: process where
  \<comment> \<open>a running engine that does not exit on SIGTERM\<close>
  "stubborn_process = \<lparr>signals = [], running = True, heeds_sigterm = False\<rparr>"

definition stopped_state :: state where
  \<comment> \<open>the state after Stop has been pressed on a run with RMSD checked\<close>
  "stopped_state
     = fst (stop_analysis_click (sample_state\<lparr>rmsd_var := True\<rparr>) (Some stubborn_process) data_world)"

definition restarted_state :: state where
  \<comment> \<open>the state after Analyze has then been pressed again\<close>
  "restarted_state = fst (run_analysis stopped_state data_world)"

definition both_checked_state :: state where
  \<comment> \<open>the contact surface state with the SASA variable at 1 as well\<close>
  "both_checked_state = contact_surface_state\<lparr>sasa_var := True\<rparr>"

section \<open>Basic facts about the world\<close>

lemma spawned_logger [simp]: "spawned (logger l m w) = spawned w"
  by (simp add: logger_def)

lemma spawned_logging [simp]: "spawned (logging l m w) = spawned w"
  by (simp add: logging_def)

lemma files_logging [simp]: "files (logging l m w) = files w"
  by (simp add: logging_def)

lemma log_logging [simp]: "log (logging l m w) = log w"
  by (simp add: logging_def)

lemma ui_logging [simp]: "ui (logging l m w) = ui w"
  by (simp add: logging_def)

lemma exists_logging_fun [simp]: "exists (logging l m w) = exists w"
  by (rule ext) (simp add: exists_def)

lemma spawned_after [simp]: "spawned (after e w) = spawned w"
  by (simp add: after_def)

lemma spawned_makedirs [simp]: "spawned (makedirs p w) = spawned w"
  by (simp add: makedirs_def)

lemma spawned_get_analysis_logger [simp]: "spawned (get_analysis_logger d w) = spawned w"
  by (simp add: get_analysis_logger_def)

lemma files_logger [simp]: "files (logger l m w) = files w"
  by (simp add: logger_def)

lemma files_after [simp]: "files (after e w) = files w"
  by (simp add: after_def)

lemma exists_logger [simp]: "exists (logger l m w) p = exists w p"
  by (simp add: exists_def)

lemma exists_after [simp]: "exists (after e w) p = exists w p"
  by (simp add: exists_def)

lemma exists_makedirs_same [simp]: "exists (makedirs p w) p"
  by (simp add: makedirs_def exists_def)

lemma exists_get_analysis_logger [simp]:
  "exists (get_analysis_logger d w) (path_join d ''Analysis'')"
  by (simp add: get_analysis_logger_def)

section \<open>When the engine is started\<close>

lemma spawn_started:
  assumes "spawn ev st s1 s2 s3 d w = (w', Some j)"
  shows "spawned w' = spawned w @
           [command st (path_join (path_join (install_dir ev) ''TCL'') ''sirah_analysis.tcl'')
              s1 s2 s3 (path_join (install_dir ev) ''TCL'') d (skip_entry st)]
         \<and> j = (replace_space ''_'' s1, replace_space ''_'' s2, replace_space ''_'' s3, d)"
  using assms by (auto simp: spawn_def Let_def split: if_splits)


lemma spawned_decline [simp]: "spawned (decline_overwrite st w) = spawned w"
  by (simp add: decline_overwrite_def Let_def)

lemma guard_started:
  assumes "guard ev st s1 s2 s3 d w = (w', Some j)"
  shows "spawned w' = spawned w @
           [command st (path_join (path_join (install_dir ev) ''TCL'') ''sirah_analysis.tcl'')
              s1 s2 s3 (path_join (install_dir ev) ''TCL'') d (skip_entry st)]
         \<and> j = (replace_space ''_'' s1, replace_space ''_'' s2, replace_space ''_'' s3, d)"
  using assms by (auto simp: guard_def Let_def split: if_splits dest!: spawn_started)


lemma analyze_started:
  assumes "analyze ev st w = (w', Some j)"
  shows "\<exists>s1 s2 s3 notes.
           validate_selections st (entry_selection (atom_selection1 st))
             (optional_selection (atom_selection2 st)) (optional_selection (atom_selection3 st))
             = Inr ((s1, s2, s3), notes)
         \<and> spawned w' = spawned w @
             [command st (path_join (path_join (install_dir ev) ''TCL'') ''sirah_analysis.tcl'')
                s1 s2 s3 (path_join (install_dir ev) ''TCL'')
                (path_join (working_directory st) ''Analysis'') (skip_entry st)]
         \<and> j = (replace_space ''_'' s1, replace_space ''_'' s2, replace_space ''_'' s3,
                path_join (working_directory st) ''Analysis'')"
  using assms
  by (auto simp: analyze_def Let_def split: if_splits sum.splits prod.splits dest!: guard_started)


lemma digit_value_digit_char:
  assumes "d < 10"
  shows "digit_value (digit_char d) = Some d"
proof -
  from assms have "d = 0 \<or> d = 1 \<or> d = 2 \<or> d = 3 \<or> d = 4 \<or> d = 5 \<or> d = 6 \<or> d = 7
    \<or> d = 8 \<or> d = 9"
    by arith
  then show ?thesis
    by (elim disjE) (simp_all add: digit_value_def digit_char_def)
qed

lemma int_of_digits_snoc:
  "int_of_digits (s @ [c]) = 10 * int_of_digits s + (case digit_value c of Some d \<Rightarrow> d | None \<Rightarrow> 0)"
  by (simp add: int_of_digits_def)

lemma int_of_digits_str_nat: "int_of_digits (str_nat n) = n"
proof (induction n rule: str_nat.induct)
  case (1 n)
  show ?case
  proof (cases "n < 10")
    case True
    then show ?thesis
      by (subst str_nat.simps) (simp add: int_of_digits_def digit_value_digit_char)
  next
    case False
    with 1 have ih: "int_of_digits (str_nat (n div 10)) = n div 10" by simp
    have "n mod 10 < 10" by simp
    then have d: "digit_value (digit_char (n mod 10)) = Some (n mod 10)"
      by (rule digit_value_digit_char)
    from False show ?thesis
      by (subst str_nat.simps) (simp add: int_of_digits_snoc ih d)
  qed
qed

section \<open>Evaluating the model on concrete inputs\<close>

lemmas eval_defs = analyze_def guard_def spawn_def decline_overwrite_def Let_def
  get_analysis_logger_def makedirs_def logger_def logging_def after_def exists_def path_join_def
  entry_selection_def optional_selection_def strip_def isspace_def validate_selections_def
  basic_analysis_selected_def advanced_analysis_selected_def truthy_def reference_file_value_def
  expected_files_def replace_space_def analysis_code_def command_def str_bool_def
  sample_env_def sample_state_def sample_world_def decimal_literal_def is_digit_def digit_value_def
  selection3_note_def basename_def overwrite_message_def join_lines_def join_spaces_def
  str_nat.simps digit_char_def

section \<open>The check buttons and the analysis code\<close>

lemma gui_step_exclusive:
  "is_click e \<Longrightarrow> \<not> (sasa c \<and> contact_surface c) \<Longrightarrow>
   \<not> (sasa (gui_step c e) \<and> contact_surface (gui_step c e))"
  by (cases e) (auto simp: update_sasa_contact_surface_def)

lemma gui_run_exclusive:
  "list_all is_click es \<Longrightarrow> \<not> (sasa (gui_run es) \<and> contact_surface (gui_run es))"
proof (induction es rule: rev_induct)
  case Nil
  show ?case by (simp add: gui_run_def initial_checks_def)
next
  case (snoc e es)
  have "gui_run (es @ [e]) = gui_step (gui_run es) e" by (simp add: gui_run_def)
  with snoc gui_step_exclusive [of e "gui_run es"] show ?case by simp
qed

lemma analysis_code_decodes: "odd (analysis_code st div code_of k) = requested st k"
  by (cases k) (simp_all add: analysis_code_def)

text \<open>
  Claim C6. The selection fallback is a function of the check variables and the three
  selections: with only basic analyses checked and a non-empty selection 1, selections 2
  and 3 become selection 1, and the three selection arguments of the engine are that
  selection; with only advanced analyses checked and a non-empty selection 2, selection 1
  becomes selection 2 and an empty selection 3 becomes selection 2.
\<close>

theorem selection_fallback:
  "(basic_analysis_selected st \<and> \<not> advanced_analysis_selected st \<and> selection1 \<noteq> [] \<longrightarrow>
      validate_selections st selection1 selection2 selection3
        = Inr ((selection1, selection1, selection1), []))
   \<and> (advanced_analysis_selected st \<and> \<not> basic_analysis_selected st \<and> selection2 \<noteq> [] \<longrightarrow>
      validate_selections st selection1 selection2 selection3
        = Inr ((selection2, selection2, if selection3 = [] then selection2 else selection3),
               if selection3 = [] then selection3_note else []))
   \<and> (basic_analysis_selected st \<and> \<not> advanced_analysis_selected st
        \<and> analyze ev st w = (w', Some j) \<longrightarrow>
      take 3 (drop 8 (last (spawned w')))
        = replicate 3 (entry_selection (atom_selection1 st)))"
proof (intro conjI impI)
  assume "basic_analysis_selected st \<and> \<not> advanced_analysis_selected st \<and> selection1 \<noteq> []"
  then show "validate_selections st selection1 selection2 selection3
               = Inr ((selection1, selection1, selection1), [])"
    by (simp add: validate_selections_def)
next
  assume "advanced_analysis_selected st \<and> \<not> basic_analysis_selected st \<and> selection2 \<noteq> []"
  then show "validate_selections st selection1 selection2 selection3
        = Inr ((selection2, selection2, if selection3 = [] then selection2 else selection3),
               if selection3 = [] then selection3_note else [])"
    by (simp add: validate_selections_def)
next
  assume a: "basic_analysis_selected st \<and> \<not> advanced_analysis_selected st
               \<and> analyze ev st w = (w', Some j)"
  from analyze_started [of ev st w w' j] a obtain s1 s2 s3 ns where
    v: "validate_selections st (entry_selection (atom_selection1 st))
             (optional_selection (atom_selection2 st)) (optional_selection (atom_selection3 st))
             = Inr ((s1, s2, s3), ns)"
    and sp: "spawned w' = spawned w @
             [command st (path_join (path_join (install_dir ev) ''TCL'') ''sirah_analysis.tcl'')
                s1 s2 s3 (path_join (install_dir ev) ''TCL'')
                (path_join (working_directory st) ''Analysis'') (skip_entry st)]"
    by blast
  from a v have "s1 = entry_selection (atom_selection1 st) \<and> s2 = s1 \<and> s3 = s1"
    by (auto simp: validate_selections_def split: if_splits)
  with sp show "take 3 (drop 8 (last (spawned w')))
        = replicate 3 (entry_selection (atom_selection1 st))"
    by (simp add: command_def numeral_3_eq_3)
qed

theorem selection_fallback_witness:
  "analysis_code (sample_state\<lparr>rmsd_var := True\<rparr>) = 1
   \<and> take 3 (drop 8 (last (spawned (fst (analyze sample_env (sample_state\<lparr>rmsd_var := True\<rparr>)
        sample_world))))) = [''A'', ''A'', ''A'']"
proof -
  let ?st = "sample_state\<lparr>rmsd_var := True\<rparr>"
  have "snd (analyze sample_env ?st sample_world) = Some (''A'', ''A'', ''A'', ''wd/Analysis'')"
    by (simp add: eval_defs)
  then have run: "analyze sample_env ?st sample_world
      = (fst (analyze sample_env ?st sample_world), Some (''A'', ''A'', ''A'', ''wd/Analysis''))"
    by (metis prod.collapse)
  have b: "basic_analysis_selected ?st \<and> \<not> advanced_analysis_selected ?st"
    by (simp add: basic_analysis_selected_def advanced_analysis_selected_def sample_state_def)
  have e: "entry_selection (atom_selection1 ?st) = ''A''"
    by (simp add: entry_selection_def sample_state_def strip_def isspace_def)
  have c: "analysis_code ?st = 1" by (simp add: analysis_code_def sample_state_def)
  from selection_fallback [of ?st "''A''" "[]" "[]" sample_env sample_world
      "fst (analyze sample_env ?st sample_world)" "(''A'', ''A'', ''A'', ''wd/Analysis'')"] run b e c
  show ?thesis by (simp add: numeral_3_eq_3)
qed

text \<open>
  Claim C7. The analysis code is the sum of the codes of the checked kinds, each kind can be
  read back from its own bit, and a run that starts the engine starts it once, with the
  code as a decimal string in position 11 of the argument vector. For the kinds 1, 4 and 8
  that string is 13.
\<close>

theorem analysis_bitmask:
  "analysis_code st
     = sum_list (map code_of (filter (requested st) [RMSD, RMSF, RGYR, SASA, Distance, RDF, ContactSurface]))
   \<and> (\<forall>k. odd (analysis_code st div code_of k) = requested st k)
   \<and> (analyze ev st w = (w', Some j) \<longrightarrow>
        (\<exists>cmd. spawned w' = spawned w @ [cmd] \<and> cmd ! 11 = str_nat (analysis_code st)
               \<and> int_of_digits (cmd ! 11) = analysis_code st))"
proof (intro conjI allI impI)
  show "analysis_code st
     = sum_list (map code_of (filter (requested st) [RMSD, RMSF, RGYR, SASA, Distance, RDF, ContactSurface]))"
    by (simp add: analysis_code_def)
next
  fix k show "odd (analysis_code st div code_of k) = requested st k"
    by (rule analysis_code_decodes)
next
  assume "analyze ev st w = (w', Some j)"
  from analyze_started [OF this] obtain s1 s2 s3 where
    "spawned w' = spawned w @
             [command st (path_join (path_join (install_dir ev) ''TCL'') ''sirah_analysis.tcl'')
                s1 s2 s3 (path_join (install_dir ev) ''TCL'')
                (path_join (working_directory st) ''Analysis'') (skip_entry st)]"
    by blast
  then show "\<exists>cmd. spawned w' = spawned w @ [cmd] \<and> cmd ! 11 = str_nat (analysis_code st)
               \<and> int_of_digits (cmd ! 11) = analysis_code st"
    by (simp add: command_def int_of_digits_str_nat)
qed

theorem analysis_bitmask_witness:
  "map (\<lambda>cmd. cmd ! 11) (spawned (fst (analyze sample_env st13 sample_world))) = [''13'']"
proof -
  have j: "snd (analyze sample_env st13 sample_world)
             = Some (''A'', ''name_GC'', ''name_GC'', ''wd/Analysis'')"
    by (simp add: eval_defs st13_def)
  then have run: "analyze sample_env st13 sample_world
      = (fst (analyze sample_env st13 sample_world),
         Some (''A'', ''name_GC'', ''name_GC'', ''wd/Analysis''))"
    by (metis prod.collapse)
  have c: "str_nat (analysis_code st13) = ''13''"
    by (simp add: analysis_code_def st13_def sample_state_def str_nat.simps digit_char_def)
  have s: "spawned sample_world = []" by (simp add: sample_world_def)
  from analysis_bitmask [of st13 sample_env sample_world
      "fst (analyze sample_env st13 sample_world)"
      "(''A'', ''name_GC'', ''name_GC'', ''wd/Analysis'')"] run c s
  show ?thesis by auto
qed

text \<open>
  As long as only the user acts on the two check buttons, at most one of the two
  variables is set, and selecting one of the two clears and disables the other.
\<close>

lemma clicks_keep_exclusive:
  "(list_all is_click es \<longrightarrow> \<not> (sasa (gui_run es) \<and> contact_surface (gui_run es)))
   \<and> (sasa_checkbutton_normal c \<and> \<not> sasa c \<longrightarrow>
        sasa (gui_step c ClickSasa) \<and> \<not> contact_surface (gui_step c ClickSasa)
        \<and> \<not> contact_surface_checkbuttom_normal (gui_step c ClickSasa))
   \<and> (contact_surface_checkbuttom_normal c \<and> \<not> contact_surface c \<and> \<not> sasa c \<longrightarrow>
        contact_surface (gui_step c ClickContactSurface) \<and> \<not> sasa (gui_step c ClickContactSurface)
        \<and> \<not> sasa_checkbutton_normal (gui_step c ClickContactSurface))"
  by (simp add: gui_run_exclusive update_sasa_contact_surface_def)

text \<open>
  Claim C10 at a failing input. SASA is checked and a run reaches the SASA block of the
  post-processing; while the plot is drawn the user unchecks SASA and checks the contact
  surface; \<^verbatim>\<open>mark_analysis_completed\<close> then sets the SASA variable back to 1 without
  running \<^verbatim>\<open>update_sasa_contact_surface\<close>. Both variables are 1, the analysis code of such
  a state is 72, and \<^verbatim>\<open>analyze\<close> hands 72 to the engine.
\<close>

theorem both_flags_set_by_completion_mark:
  "gui_run [ClickSasa, SasaPlotStarts, ClickSasa, ClickContactSurface, SasaPlotEnds]
     = \<lparr>sasa = True, contact_surface = True, sasa_checkbutton_normal = False,
        contact_surface_checkbuttom_normal = True, sasa_plot_running = False,
        contact_surface_plot_running = False\<rparr>
   \<and> sasa_var both_checked_state \<and> contact_surface_var both_checked_state
   \<and> analysis_code both_checked_state = 72
   \<and> map (\<lambda>cmd. take 4 (drop 8 cmd)) (spawned (fst (analyze sample_env both_checked_state sample_world)))
       = [[''GC'', ''GC'', ''BFO'', ''72'']]"
  by (simp add: gui_run_def initial_checks_def update_sasa_contact_surface_def eval_defs
        both_checked_state_def contact_surface_state_def)

theorem both_flags_set_by_completion_mark_witness:
  "sasa (gui_run [ClickSasa, SasaPlotStarts, ClickSasa, ClickContactSurface, SasaPlotEnds])
   \<and> contact_surface (gui_run [ClickSasa, SasaPlotStarts, ClickSasa, ClickContactSurface, SasaPlotEnds])
   \<and> odd (analysis_code both_checked_state div 8)
   \<and> odd (analysis_code both_checked_state div 64)"
  using both_flags_set_by_completion_mark by simp

section \<open>Logs and callbacks are only appended\<close>

lemma take_prefix_length:
  assumes "take (length xs) ys = xs"
  shows "length xs \<le> length ys"
proof -
  from assms have "length (take (length xs) ys) = length xs" by simp
  then show ?thesis by simp
qed

lemma take_prefix_trans:
  assumes "take (length xs) ys = xs" "take (length ys) zs = ys"
  shows "take (length xs) zs = xs"
proof -
  from assms(1) have "length xs \<le> length ys" by (rule take_prefix_length)
  then have "take (length xs) zs = take (length xs) (take (length ys) zs)" by (simp add: min_def)
  with assms show ?thesis by simp
qed

lemma grows_refl [simp]: "grows w w"
  by (simp add: grows_def)

lemma grows_trans: "grows a b \<Longrightarrow> grows b c \<Longrightarrow> grows a c"
  by (auto simp: grows_def intro: take_prefix_trans)

lemma grows_logger: "grows w w' \<Longrightarrow> grows w (logger l m w')"
  by (auto simp: grows_def logger_def dest: take_prefix_length)

lemma grows_after: "grows w w' \<Longrightarrow> grows w (after e w')"
  by (auto simp: grows_def after_def dest: take_prefix_length)

lemma grows_files: "grows w w' \<Longrightarrow> grows w (w'\<lparr>files := f\<rparr>)"
  by (simp add: grows_def)

lemma grows_makedirs: "grows w w' \<Longrightarrow> grows w (makedirs p w')"
  by (simp add: makedirs_def grows_files)

lemma grows_get_analysis_logger: "grows w w' \<Longrightarrow> grows w (get_analysis_logger d w')"
  by (simp add: get_analysis_logger_def grows_makedirs)

lemmas grows_intros = grows_logger grows_after grows_files grows_makedirs grows_get_analysis_logger

lemma grows_mark: "grows w w' \<Longrightarrow> grows w (mark_analysis_completed st t w')"
  by (simp add: mark_analysis_completed_def Let_def grows_intros)

lemma grows_save_plot: "grows w w' \<Longrightarrow> grows w (save_plot ev df t pre d fl w')"
  by (simp add: save_plot_def Let_def grows_intros)

lemma grows_plot_generic: "grows w w' \<Longrightarrow> grows w (plot_generic ev st df t pre d w')"
  by (simp add: plot_generic_def Let_def grows_intros grows_save_plot)

lemma grows_plot_rmsf: "grows w w' \<Longrightarrow> grows w (plot_rmsf ev st df t pre d w')"
  by (simp add: plot_rmsf_def Let_def grows_intros grows_save_plot)

lemma grows_plot_rdf: "grows w w' \<Longrightarrow> grows w (plot_rdf ev st df pre d tg ti w')"
  by (simp add: plot_rdf_def Let_def grows_intros)

lemma grows_generate_pdf: "grows w w' \<Longrightarrow> grows w (generate_pdf ev st f s1 s2 s3 w')"
  by (simp add: generate_pdf_def Let_def grows_intros)

lemma grows_plots: "grows w w' \<Longrightarrow> grows w (plots ev st c1 c2 c3 d w')"
  by (simp add: plots_def rmsd_plot_def rmsf_plot_def rgyr_plot_def sasa_plot_def
        contact_surface_plot_def distance_plot_def rdf_plot_def grows_mark grows_plot_generic
        grows_plot_rmsf grows_plot_rdf)

lemma grows_pdf_report: "grows w w' \<Longrightarrow> grows w (pdf_report ev st c1 c2 c3 d w')"
  by (simp add: pdf_report_def Let_def grows_intros grows_generate_pdf)

lemma log_relay [simp]: "log (relay ls w) = log w"
  by (induction ls arbitrary: w) (simp_all add: relay_def insert_vmd_output_def after_def)

lemma ui_relay: "ui (relay ls w) = ui w @ map InsertText ls"
  by (induction ls arbitrary: w) (simp_all add: relay_def insert_vmd_output_def after_def)

lemma spawned_relay [simp]: "spawned (relay ls w) = spawned w"
  by (induction ls arbitrary: w) (simp_all add: relay_def insert_vmd_output_def after_def)

lemma files_relay [simp]: "files (relay ls w) = files w"
  by (induction ls arbitrary: w) (simp_all add: relay_def insert_vmd_output_def after_def)

lemma log_get_analysis_logger [simp]: "log (get_analysis_logger d w) = log w"
  by (simp add: get_analysis_logger_def makedirs_def)

lemma ui_get_analysis_logger [simp]: "ui (get_analysis_logger d w) = ui w"
  by (simp add: get_analysis_logger_def makedirs_def)

lemma post_process_log:
  "\<exists>rest. log (post_process_analysis ev st c1 c2 c3 d w)
      = log w @ (INFO, ''Running post-process analysis (ploting and generate PDF)...'') # rest"
proof -
  let ?w1 = "logger INFO ''Running post-process analysis (ploting and generate PDF)...''
               (get_analysis_logger (working_directory st) w)"
  have "grows ?w1 (post_process_analysis ev st c1 c2 c3 d w)"
    by (simp add: post_process_analysis_def grows_pdf_report grows_plots)
  then have "take (length (log ?w1)) (log (post_process_analysis ev st c1 c2 c3 d w)) = log ?w1"
    by (simp add: grows_def)
  then have "log (post_process_analysis ev st c1 c2 c3 d w)
      = log ?w1 @ drop (length (log ?w1)) (log (post_process_analysis ev st c1 c2 c3 d w))"
    by (metis append_take_drop_id)
  moreover define rest where
    "rest = drop (length (log ?w1)) (log (post_process_analysis ev st c1 c2 c3 d w))"
  ultimately have "log (post_process_analysis ev st c1 c2 c3 d w)
      = log w @ (INFO, ''Running post-process analysis (ploting and generate PDF)...'') # rest"
    by (simp add: logger_def)
  then show ?thesis by blast
qed

lemma post_process_ui:
  "\<exists>rest. ui (post_process_analysis ev st c1 c2 c3 d w) = ui w @ rest"
proof -
  have "grows w (post_process_analysis ev st c1 c2 c3 d w)"
    by (simp add: post_process_analysis_def grows_pdf_report grows_plots grows_intros)
  then have "take (length (ui w)) (ui (post_process_analysis ev st c1 c2 c3 d w)) = ui w"
    by (simp add: grows_def)
  then show ?thesis by (metis append_take_drop_id)
qed

text \<open>
  \<^verbatim>\<open>read_output\<close> runs the post-processing exactly when the engine returned 0 and the
  flag \<^verbatim>\<open>state.stop_analysis\<close> is not set at the moment it is tested. With a return code
  other than 0 and the flag not set, the error dialog carries the return code; with the
  flag set, nothing is logged after the line that announces the reading. The flag is one
  field of the state shared by all runs of the tab.
\<close>

lemma post_processing_iff_flag:
  "post_processed w (read_output ev st j stdout stderr returncode w)
     = (returncode = 0 \<and> \<not> stop_analysis st)
   \<and> (returncode \<noteq> 0 \<and> \<not> stop_analysis st \<longrightarrow>
        ShowError (''VMD exited with return code '' @ str_int returncode @ ''.'')
          \<in> set (new_ui w (read_output ev st j stdout stderr returncode w)))
   \<and> (stop_analysis st \<longrightarrow>
        new_log w (read_output ev st j stdout stderr returncode w) = [(INFO, ''Reading VMD Output'')])"
proof -
  obtain c1 c2 c3 d where j: "j = (c1, c2, c3, d)" by (cases j) auto
  let ?w1 = "relay stderr (relay stdout (logger INFO ''Reading VMD Output''
               (get_analysis_logger (working_directory st) w)))"
  have l1: "log ?w1 = log w @ [(INFO, ''Reading VMD Output'')]" by (simp add: logger_def)
  have u1: "ui ?w1 = ui w @ map InsertText stdout @ map InsertText stderr"
    by (simp add: ui_relay logger_def)
  show ?thesis
  proof (cases "returncode = 0 \<and> \<not> stop_analysis st")
    case True
    obtain rest where r: "log (post_process_analysis ev st c1 c2 c3 d ?w1)
      = log ?w1 @ (INFO, ''Running post-process analysis (ploting and generate PDF)...'') # rest"
      using post_process_log by blast
    from True have "log (read_output ev st j stdout stderr returncode w)
        = log (post_process_analysis ev st c1 c2 c3 d ?w1)"
      by (simp add: read_output_def j Let_def close_progress_def insert_vmd_output_def after_def)
    with r l1 True show ?thesis
      by (simp add: post_processed_def new_log_def)
  next
    case False
    show ?thesis
    proof (cases "stop_analysis st")
      case True
      then have "log (read_output ev st j stdout stderr returncode w) = log ?w1"
        by (simp add: read_output_def j Let_def close_progress_def after_def)
      with l1 True show ?thesis by (simp add: post_processed_def new_log_def)
    next
      case nostop: False
      with False have rc: "returncode \<noteq> 0" by simp
      from rc nostop have "log (read_output ev st j stdout stderr returncode w)
          = log ?w1 @ [(ERROR, ''VMD exited with return code '' @ str_int returncode)]"
        by (simp add: read_output_def j Let_def close_progress_def after_def logger_def)
      moreover from rc nostop have "ui (read_output ev st j stdout stderr returncode w)
          = ui ?w1 @ ShowError (''VMD exited with return code '' @ str_int returncode @ ''.'')
             # (if progress_window st then [DestroyProgress] else [])"
        by (simp add: read_output_def j Let_def close_progress_def after_def logger_def)
      ultimately show ?thesis using l1 u1 rc nostop
        by (simp add: post_processed_def new_log_def new_ui_def)
    qed
  qed
qed


lemma inserted_append: "inserted (xs @ ys) = inserted xs @ inserted ys"
  by (induction xs rule: inserted.induct) simp_all

lemma inserted_map [simp]: "inserted (map InsertText ls) = ls"
  by (induction ls) simp_all

lemma display_inserted: "display shown es = shown @ concat (inserted es)"
  by (induction shown es rule: display.induct) simp_all

lemma read_output_ui:
  "\<exists>rest. ui (read_output ev st j stdout stderr returncode w)
      = ui w @ map InsertText stdout @ map InsertText stderr @ rest"
proof -
  obtain c1 c2 c3 d where j: "j = (c1, c2, c3, d)" by (cases j) auto
  let ?w1 = "relay stderr (relay stdout (logger INFO ''Reading VMD Output''
               (get_analysis_logger (working_directory st) w)))"
  have u1: "ui ?w1 = ui w @ map InsertText stdout @ map InsertText stderr"
    by (simp add: ui_relay logger_def)
  obtain rest where r: "ui (post_process_analysis ev st c1 c2 c3 d ?w1) = ui ?w1 @ rest"
    using post_process_ui by blast
  show ?thesis
    using u1 r
    by (simp add: read_output_def j Let_def close_progress_def after_def logger_def
          insert_vmd_output_def)
qed

text \<open>
  Claim C8. The texts inserted into the output widget by a run are the lines of the
  standard output in the order in which they were read, then the lines of the error
  stream in their order, then what the completion adds; the widget shows their
  concatenation after what it held before. A run printing the lines 1 to 100 has them
  inserted in that order.
\<close>

theorem relay_keeps_order:
  "\<exists>rest. inserted (new_ui w (read_output ev st j stdout stderr returncode w))
             = stdout @ stderr @ rest
         \<and> display shown (new_ui w (read_output ev st j stdout stderr returncode w))
             = shown @ concat stdout @ concat stderr @ concat rest"
proof -
  obtain rest where "ui (read_output ev st j stdout stderr returncode w)
      = ui w @ map InsertText stdout @ map InsertText stderr @ rest"
    using read_output_ui by blast
  then have "inserted (new_ui w (read_output ev st j stdout stderr returncode w))
      = stdout @ stderr @ inserted rest"
    by (simp add: new_ui_def inserted_append)
  then show ?thesis by (simp add: display_inserted)
qed

theorem relay_keeps_order_witness:
  "\<exists>rest. inserted (new_ui sample_world
             (read_output sample_env sample_state (''A'', ''A'', ''A'', ''wd/Analysis'')
                (map (\<lambda>n. str_nat n @ [CHR 0x0A]) [1..<101]) [] 0 sample_world))
           = map (\<lambda>n. str_nat n @ [CHR 0x0A]) [1..<101] @ rest"
  using relay_keeps_order [of sample_world sample_env sample_state
      "(''A'', ''A'', ''A'', ''wd/Analysis'')" "map (\<lambda>n. str_nat n @ [CHR 0x0A]) [1..<101]" "[]" 0 "[]"]
  by auto

section \<open>Validation\<close>

lemma ui_logger [simp]: "ui (logger l m w) = ui w"
  by (simp add: logger_def)

lemma ui_after [simp]: "ui (after e w) = ui w @ [e]"
  by (simp add: after_def)

lemma ui_makedirs [simp]: "ui (makedirs p w) = ui w"
  by (simp add: makedirs_def)










section \<open>The overwrite guard\<close>



lemma log_after [simp]: "log (after e w) = log w"
  by (simp add: after_def)

lemma log_logger [simp]: "log (logger l m w) = log w @ [(l, m)]"
  by (simp add: logger_def)

lemma exists_logger_fun [simp]: "exists (logger l m w) = exists w"
  by (rule ext) (simp add: exists_def)

lemma exists_after_fun [simp]: "exists (after e w) = exists w"
  by (rule ext) (simp add: exists_def)

lemma exists_log_update [simp]: "exists (w\<lparr>log := l\<rparr>) = exists w"
  by (rule ext) (simp add: exists_def)



lemmas eval_post_defs = post_process_analysis_def plots_def rmsd_plot_def rmsf_plot_def rgyr_plot_def
  sasa_plot_def contact_surface_plot_def distance_plot_def rdf_plot_def pdf_report_def
  plot_generic_def plot_rmsf_def plot_rdf_def save_plot_def mark_analysis_completed_def
  generate_pdf_def pdf_pages_def page_def



lemma guard_covers_other_kinds:
  assumes "requested st k" "k \<noteq> ContactSurface"
  shows "path_join d (data_file k c1 c2 c3) \<in> set (expected_files st c1 c2 c3 d)
         \<and> (\<forall>(h, img, t) \<in> set (image_files k c1 c2 c3).
               path_join d img \<in> set (expected_files st c1 c2 c3 d))"
  using assms by (cases k) (simp_all add: expected_files_def)

text \<open>
  Claim C2 at a failing input. With only the contact surface analysis checked, the
  overwrite guard expects no file: the run asks nothing although the image of an earlier
  run exists, the engine is started with code 64, and the post-processing replaces that
  image. The other six kinds have their data file and images among the expected files
  (\<open>guard_covers_other_kinds\<close>).
\<close>

theorem contact_surface_not_guarded:
  "expected_files contact_surface_state ''GC'' ''GC'' ''BFO'' ''wd/Analysis'' = []
   \<and> dialogs rerun_world (fst (analyze sample_env contact_surface_state rerun_world)) = []
   \<and> map (\<lambda>cmd. take 4 (drop 8 cmd)) (spawned (fst (analyze sample_env contact_surface_state rerun_world)))
       = [[''GC'', ''GC'', ''BFO'', ''64'']]
   \<and> files rerun_world ''wd/Analysis/ContactSurface_GC_BFO.png'' = Some (Image ''earlier run'')
   \<and> files (post_process_analysis sample_env contact_surface_state ''GC'' ''GC'' ''BFO''
        ''wd/Analysis'' rerun_world) ''wd/Analysis/ContactSurface_GC_BFO.png''
       = Some (Image ''Contact Surface per Frame - GC & BFO'')"
  by (simp add: eval_defs eval_post_defs rerun_world_def contact_surface_state_def dialogs_def
        new_ui_def)

theorem contact_surface_not_guarded_witness:
  "''wd/Analysis/ContactSurface_GC_BFO.png''
     \<notin> set (expected_files contact_surface_state ''GC'' ''GC'' ''BFO'' ''wd/Analysis'')
   \<and> is_image (files (post_process_analysis sample_env contact_surface_state ''GC'' ''GC'' ''BFO''
        ''wd/Analysis'' rerun_world) ''wd/Analysis/ContactSurface_GC_BFO.png'')
   \<and> length (spawned (fst (analyze sample_env contact_surface_state rerun_world))) = 1"
proof -
  from contact_surface_not_guarded
  have "map (\<lambda>cmd. take 4 (drop 8 cmd))
          (spawned (fst (analyze sample_env contact_surface_state rerun_world)))
        = [[''GC'', ''GC'', ''BFO'', ''64'']]"
    by blast
  then have "length (map (\<lambda>cmd. take 4 (drop 8 cmd))
          (spawned (fst (analyze sample_env contact_surface_state rerun_world))))
        = length [[''GC'', ''GC'', ''BFO'', ''64'']]"
    by (rule arg_cong)
  then have "length (spawned (fst (analyze sample_env contact_surface_state rerun_world))) = 1"
    by simp
  with contact_surface_not_guarded show ?thesis
    by (simp add: is_image_def)
qed

section \<open>Paths\<close>

lemma path_join_Cons: "c \<noteq> CHR ''/'' \<Longrightarrow> path_join d (c # xs) = dir_prefix d @ c # xs"
  by (simp add: path_join_def dir_prefix_def)

lemma path_join_inject [simp]:
  "c \<noteq> CHR ''/'' \<Longrightarrow> c' \<noteq> CHR ''/'' \<Longrightarrow>
   (path_join d (c # xs) = path_join d (c' # ys)) = (c = c' \<and> xs = ys)"
  by (simp add: path_join_Cons)

lemma path_join_neq_dir [simp]: "c \<noteq> CHR ''/'' \<Longrightarrow> path_join d (c # xs) \<noteq> d"
  by (simp add: path_join_Cons dir_prefix_def)

lemma path_join_neq_dir' [simp]: "c \<noteq> CHR ''/'' \<Longrightarrow> d \<noteq> path_join d (c # xs)"
  by (simp add: path_join_Cons dir_prefix_def)

section \<open>Files written by the plot functions\<close>








section \<open>Files written by the blocks of the post-processing\<close>













section \<open>The report\<close>










section \<open>Failures of one plot\<close>








section \<open>What a cancel sends to the engine\<close>

lemma contacts_cancel_escalates:
  assumes "running p"
  shows "signals (fst (contacts_cancel p w))
           = signals p @ SIGTERM # (if heeds_sigterm p then [] else [SIGKILL])
         \<and> \<not> running (fst (contacts_cancel p w))"
  using assms by (simp add: contacts_cancel_def terminate_def kill_def wait_times_out_def Let_def)

lemma contacts_read_loop_cancels:
  "n \<le> length ls \<Longrightarrow>
   fst (contacts_read_loop (Some n) ls p w) \<and>
   fst (snd (contacts_read_loop (Some n) ls p w)) = fst (contacts_cancel p w')"
proof (induction ls arbitrary: n w)
  case Nil
  then show ?case by (simp add: contacts_cancel_def Let_def split: prod.splits)
next
  case (Cons l ls)
  show ?case
  proof (cases n)
    case 0
    then show ?thesis by (simp add: contacts_cancel_def Let_def split: prod.splits)
  next
    case (Suc m)
    with Cons.prems have "m \<le> length ls" by simp
    from Cons.IH [OF this] Suc show ?thesis by simp
  qed
qed

lemma stop_analysis_only_terminates:
  "fst (snd (stop_analysis_click st (Some p) w)) = Some (terminate p)
   \<and> stop_analysis (fst (stop_analysis_click st (Some p) w))"
  by (simp add: stop_analysis_click_def Let_def)

lemma stop_backmapping_only_terminates:
  "fst (stop_backmapping (Some p) w) = Some (terminate p)"
  by (simp add: stop_backmapping_def)

text \<open>
  Claim C9 at a failing input: an engine that does not exit on SIGTERM. The stop of the
  analysis workflow and the stop of the backmapping workflow send SIGTERM and nothing
  else, and the process keeps running; the cancel branch of the contacts workflow sends
  SIGTERM, waits, and sends SIGKILL.
\<close>

theorem cancel_without_escalation:
  "fst (snd (stop_analysis_click sample_state (Some stubborn_process) sample_world))
     = Some \<lparr>signals = [SIGTERM], running = True, heeds_sigterm = False\<rparr>
   \<and> fst (stop_backmapping (Some stubborn_process) sample_world)
     = Some \<lparr>signals = [SIGTERM], running = True, heeds_sigterm = False\<rparr>
   \<and> fst (contacts_cancel stubborn_process sample_world)
     = \<lparr>signals = [SIGTERM, SIGKILL], running = False, heeds_sigterm = False\<rparr>"
  by (simp add: stop_analysis_click_def stop_backmapping_def contacts_cancel_def terminate_def
        kill_def wait_times_out_def stubborn_process_def Let_def)

theorem cancel_without_escalation_witness:
  "running (the (fst (snd (stop_analysis_click sample_state (Some stubborn_process) sample_world))))
   \<and> SIGKILL \<notin> set (signals (the (fst (snd (stop_analysis_click sample_state
        (Some stubborn_process) sample_world)))))
   \<and> running (the (fst (stop_backmapping (Some stubborn_process) sample_world)))
   \<and> \<not> running (fst (contacts_cancel stubborn_process sample_world))"
  using cancel_without_escalation by simp

section \<open>A stopped job after a new run\<close>

text \<open>
  Claim C4 at a failing input. Stop is pressed on a run whose engine does not exit on
  SIGTERM: the flag is set and the Analyze button is enabled again. Analyze is pressed
  again: \<^verbatim>\<open>run_analysis\<close> resets the flag. The engine of the stopped run then ends with
  return code 0, and its \<^verbatim>\<open>read_output\<close> finds the flag unset: the stopped job is
  post-processed and its RMSD plot is written.
\<close>

theorem stopped_job_is_post_processed:
  "stop_analysis stopped_state \<and> \<not> stop_analysis restarted_state
   \<and> post_processed data_world
        (read_output sample_env restarted_state (''A'', ''A'', ''A'', ''wd/Analysis'') [''done''] [] 0
           data_world)
   \<and> files (read_output sample_env restarted_state (''A'', ''A'', ''A'', ''wd/Analysis'') [''done''] [] 0
        data_world) ''wd/Analysis/RMSD_A.png'' = Some (Image ''RMSD per Frame - A'')"
  by (simp add: stopped_state_def restarted_state_def stop_analysis_click_def run_analysis_def
        read_output_def relay_def insert_vmd_output_def close_progress_def post_processed_def
        new_log_def eval_post_defs eval_defs data_world_def)

theorem stopped_job_is_post_processed_witness:
  "is_image (files (read_output sample_env restarted_state (''A'', ''A'', ''A'', ''wd/Analysis'')
       [''done''] [] 0 data_world) ''wd/Analysis/RMSD_A.png'')
   \<and> stop_analysis stopped_state"
  using stopped_job_is_post_processed by (simp add: is_image_def)

end
